theory Spec2Isabelle
  imports Complex_Main "HOL-Library.Sublist"
begin

section \<open>Python values\<close>

text \<open>
  The values \<^verbatim>\<open>request.get_json\<close> can return: what Python's \<^verbatim>\<open>json.loads\<close> builds
  from a JSON document. JSON \<^verbatim>\<open>null\<close> becomes \<^verbatim>\<open>None\<close>, an object becomes a
  \<^verbatim>\<open>dict\<close> with \<^verbatim>\<open>str\<close> keys (an association list here, looked up with
  \<open>map_of\<close>), integers are unbounded. A \<^verbatim>\<open>str\<close> is the list of its code points:
  \<^verbatim>\<open>json.loads\<close> accepts the escape of a lone surrogate (\<^verbatim>\<open>"\ud800"\<close>) and builds
  the one-character string that holds it. A float is a finite number or one of the
  three special values \<^verbatim>\<open>json.loads\<close> accepts (\<^verbatim>\<open>Infinity\<close>, \<^verbatim>\<open>-Infinity\<close>,
  \<^verbatim>\<open>NaN\<close>); only its truth value matters to the program.
\<close>

datatype py_float = Finite real | PosInf | NegInf | NaN

datatype pyval =
    PyNone
  | PyBool bool
  | PyInt int
  | PyFloat py_float
  | PyUnicode "nat list"
  | PyList "pyval list"
  | PyDict "(nat list \<times> pyval) list"

text \<open>The \<^verbatim>\<open>str\<close> that a string literal of the program denotes.\<close>

abbreviation ustr :: "string \<Rightarrow> nat list" where
  "ustr s \<equiv> map of_char s"

abbreviation PyStr :: "string \<Rightarrow> pyval" where
  "PyStr s \<equiv> PyUnicode (ustr s)"

text \<open>Python's truth value testing, as \<^verbatim>\<open>if data\<close> applies it.\<close>

fun truthy :: "pyval \<Rightarrow> bool" where
  "truthy PyNone = False"
| "truthy (PyBool b) = b"
| "truthy (PyInt i) = (i \<noteq> 0)"
| "truthy (PyFloat (Finite r)) = (r \<noteq> 0)"
| "truthy (PyFloat _) = True"
| "truthy (PyUnicode s) = (s \<noteq> [])"
| "truthy (PyList xs) = (xs \<noteq> [])"
| "truthy (PyDict kvs) = (kvs \<noteq> [])"

fun is_dict :: "pyval \<Rightarrow> bool" where
  "is_dict (PyDict _) = True"
| "is_dict _ = False"

text \<open>\<^verbatim>\<open>type(v).__name__\<close>, as it appears in the text of an \<^verbatim>\<open>AttributeError\<close>.\<close>

fun type_name :: "pyval \<Rightarrow> string" where
  "type_name PyNone = ''NoneType''"
| "type_name (PyBool _) = ''bool''"
| "type_name (PyInt _) = ''int''"
| "type_name (PyFloat _) = ''float''"
| "type_name (PyUnicode _) = ''str''"
| "type_name (PyList _) = ''list''"
| "type_name (PyDict _) = ''dict''"

section \<open>Exceptions and tracebacks\<close>

text \<open>
  An exception carries the name of its class, the text \<^verbatim>\<open>str(e)\<close> gives, and its
  traceback: the frames of the program it has passed through, the innermost last.
\<close>

record frame =
  filename :: string
  lineno :: nat
  funcname :: string

record py_exception =
  exc_type :: string
  exc_str :: string
  traceback :: "frame list"

definition zero_division_error :: py_exception where
  "zero_division_error =
     \<lparr>exc_type = ''ZeroDivisionError'', exc_str = ''division by zero'', traceback = []\<rparr>"

definition attribute_error :: "string \<Rightarrow> string \<Rightarrow> py_exception" where
  "attribute_error ty attr =
     \<lparr>exc_type = ''AttributeError'',
      exc_str = [CHR 0x27] @ ty @ [CHR 0x27] @ '' object has no attribute '' @
                [CHR 0x27] @ attr @ [CHR 0x27],
      traceback = []\<rparr>"

definition recursion_error :: "string \<Rightarrow> py_exception" where
  "recursion_error msg = \<lparr>exc_type = ''RecursionError'', exc_str = msg, traceback = []\<rparr>"

text \<open>An exception raised in, or passing through, a frame gets that frame in its traceback.\<close>

definition add_frame :: "frame \<Rightarrow> py_exception \<Rightarrow> py_exception" where
  "add_frame f e = e\<lparr>traceback := f # traceback e\<rparr>"

text \<open>
  The true division \<^verbatim>\<open>a / b\<close> of two ints: \<^verbatim>\<open>ZeroDivisionError\<close> when the divisor is
  zero, a float otherwise (the quotient, its rounding to a double left out).
\<close>

definition py_truediv :: "int \<Rightarrow> int \<Rightarrow> py_exception + py_float" where
  "py_truediv a b =
     (if b = 0 then Inl zero_division_error else Inr (Finite (of_int a / of_int b)))"

text \<open>
  \<^verbatim>\<open>data.get(key, default)\<close>: the attribute \<^verbatim>\<open>get\<close> exists on a dict only; on every
  other value of \<^typ>\<open>pyval\<close> the attribute lookup raises \<^verbatim>\<open>AttributeError\<close>.
\<close>

definition py_get :: "pyval \<Rightarrow> nat list \<Rightarrow> pyval \<Rightarrow> py_exception + pyval" where
  "py_get data key dflt =
     (case data of
        PyDict kvs \<Rightarrow> Inr (case map_of kvs key of Some v \<Rightarrow> v | None \<Rightarrow> dflt)
      | _ \<Rightarrow> Inl (attribute_error (type_name data) ''get''))"

section \<open>Requests and \<^verbatim>\<open>get_json\<close>\<close>

text \<open>
  A request to the endpoint, as far as \<^verbatim>\<open>request.get_json\<close> looks at it: whether its
  content type announces JSON, and what \<^verbatim>\<open>json.loads\<close> does with its body. The body
  is absent; or it is bytes that \<^verbatim>\<open>json.loads\<close> rejects with a \<^verbatim>\<open>ValueError\<close> (a
  syntax error, bytes that are no text); or it is nested deeper than the interpreter's
  recursion limit, a hundred thousand opening brackets for one, and \<^verbatim>\<open>json.loads\<close>
  raises \<^verbatim>\<open>RecursionError\<close> with the text kept here; or it is a document that
  \<^verbatim>\<open>json.loads\<close> turns into a value.
\<close>

datatype payload = Absent | Malformed string | Overdeep string | Json pyval

record request =
  json_mimetype :: bool
  payload :: payload

text \<open>The HTTP exceptions \<^verbatim>\<open>get_json\<close> raises when it is not silent.\<close>

datatype http_error = BadRequest | UnsupportedMediaType

fun http_status :: "http_error \<Rightarrow> nat" where
  "http_status BadRequest = 400"
| "http_status UnsupportedMediaType = 415"

text \<open>What leaves a function that does not return: an HTTP exception or any other.\<close>

datatype raised = HTTPException http_error | Error py_exception

text \<open>
  \<^verbatim>\<open>request.get_json(silent=...)\<close>. Without a JSON content type the body is not
  parsed. Otherwise \<^verbatim>\<open>json.loads\<close> runs inside \<^verbatim>\<open>try ... except ValueError\<close>: for a
  \<^verbatim>\<open>ValueError\<close> the call raises the error of status 400 unless \<^verbatim>\<open>silent\<close> is set,
  and then returns \<^verbatim>\<open>None\<close>; any other exception of \<^verbatim>\<open>json.loads\<close> leaves the
  call, silent or not.
\<close>

definition get_json :: "bool \<Rightarrow> request \<Rightarrow> raised + pyval" where
  "get_json silent req =
     (if \<not> json_mimetype req
      then (if silent then Inr PyNone else Inl (HTTPException UnsupportedMediaType))
      else (case payload req of
              Json v \<Rightarrow> Inr v
            | Overdeep msg \<Rightarrow> Inl (Error (recursion_error msg))
            | _ \<Rightarrow> (if silent then Inr PyNone else Inl (HTTPException BadRequest))))"

section \<open>Responses and \<^verbatim>\<open>jsonify\<close>\<close>

record response =
  status :: nat
  headers :: "(string \<times> string) list"
  body :: string

definition hex_digit :: "nat \<Rightarrow> char" where
  "hex_digit n = ''0123456789abcdef'' ! (n mod 16)"

text \<open>
  The string encoder of \<^verbatim>\<open>json.dumps\<close> with \<^verbatim>\<open>ensure_ascii\<close>: the backslash, the double
  quote and the five short escapes, and \<^verbatim>\<open>\u00xx\<close> for every other character outside
  the printable ASCII range.
\<close>

definition json_escape_char :: "char \<Rightarrow> string" where
  \<open>json_escape_char c =
     (if c = CHR 0x22 then [CHR 0x5C, CHR 0x22]
      else if c = CHR 0x5C then [CHR 0x5C, CHR 0x5C]
      else if c = CHR 0x08 then [CHR 0x5C, CHR ''b'']
      else if c = CHR 0x0C then [CHR 0x5C, CHR ''f'']
      else if c = CHR 0x0A then [CHR 0x5C, CHR ''n'']
      else if c = CHR 0x0D then [CHR 0x5C, CHR ''r'']
      else if c = CHR 0x09 then [CHR 0x5C, CHR ''t'']
      else if (of_char c :: nat) < 32 \<or> 126 < (of_char c :: nat)
      then [CHR 0x5C, CHR ''u'', CHR ''0'', CHR ''0'',
            hex_digit (of_char c div 16), hex_digit (of_char c)]
      else [c])\<close>

definition json_string :: "string \<Rightarrow> string" where
  \<open>json_string s = [CHR 0x22] @ concat (map json_escape_char s) @ [CHR 0x22]\<close>

fun json_members :: "(string \<times> string) list \<Rightarrow> string" where
  "json_members [] = []"
| "json_members [(k, v)] = json_string k @ '':'' @ json_string v"
| "json_members ((k, v) # kvs) = json_string k @ '':'' @ json_string v @ '','' @ json_members kvs"

text \<open>
  \<^verbatim>\<open>jsonify\<close> on a dict whose keys and values are strings, the only use the program
  makes of it: status 200, the JSON content type, and the compact serialisation
  followed by a newline that the framework produces outside debug mode.
\<close>

definition jsonify :: "(string \<times> string) list \<Rightarrow> response" where
  "jsonify d =
     \<lparr>status = 200,
      headers = [(''Content-Type'', ''application/json'')],
      body = ''{'' @ json_members d @ ''}'' @ [CHR 0x0A]\<rparr>"

text \<open>\<^verbatim>\<open>return resp, code\<close> from a view: the framework sets the status of the response.\<close>

definition with_status :: "response \<Rightarrow> nat \<Rightarrow> response" where
  "with_status resp code = resp\<lparr>status := code\<rparr>"

text \<open>\<^verbatim>\<open>response.headers.add(name, value)\<close> appends a header line.\<close>

definition headers_add :: "string \<Rightarrow> string \<Rightarrow> response \<Rightarrow> response" where
  "headers_add name val resp = resp\<lparr>headers := headers resp @ [(name, val)]\<rparr>"

section \<open>Process state: console streams and the error log\<close>

text \<open>
  A printed line is a format string: literal text of the program, with the values
  interpolated by \<^verbatim>\<open>str\<close> kept as values.
\<close>

datatype piece = Lit string | Interp pyval

type_synonym line = "piece list"

record log_record =
  levelno :: nat
  message :: string
  exc :: "py_exception option"

datatype err_item = Printed line | Logged log_record

text \<open>
  The state the handlers act on: standard output, standard error, the records appended
  to \<^verbatim>\<open>app_errors.log\<close> through \<^verbatim>\<open>app.logger\<close>, the exception being handled when
  the handler runs (\<^verbatim>\<open>sys.exc_info()\<close>), and the name under which the interpreter
  loaded \<^verbatim>\<open>server.py\<close>.

  The last field is the part of the environment that decides whether a value can be
  printed. \<^verbatim>\<open>print\<close> formats a value with \<^verbatim>\<open>str\<close> and encodes the text for standard
  output, and either step can raise: \<^verbatim>\<open>UnicodeEncodeError\<close> for a code point the
  codec of the stream has no encoding for (a lone surrogate under UTF-8, every
  character beyond ASCII under the ASCII codec), \<^verbatim>\<open>RecursionError\<close> for a list or
  dict nested too deep for \<^verbatim>\<open>repr\<close>. Which exception a value meets, if any, depends
  on the locale and the settings of the process, not on the program.
\<close>

record state =
  stdout :: "line list"
  stderr :: "err_item list"
  log_file :: "log_record list"
  exc_info :: "py_exception option"
  server_py :: string
  unprintable :: "pyval \<Rightarrow> py_exception option"

text \<open>
  A \<^verbatim>\<open>str\<close> of ASCII characters is its own text under \<^verbatim>\<open>str\<close>, and every codec of
  a standard output encodes it; for every other value the environment decides.
\<close>

definition value_failure :: "state \<Rightarrow> pyval \<Rightarrow> py_exception option" where
  "value_failure st v =
     (case v of
        PyUnicode s \<Rightarrow> (if list_all (\<lambda>c. c < 128) s then None else unprintable st v)
      | _ \<Rightarrow> unprintable st v)"

text \<open>The literal text of the program is ASCII; the first value that fails, fails the line.\<close>

fun format_failure :: "state \<Rightarrow> line \<Rightarrow> py_exception option" where
  "format_failure st [] = None"
| "format_failure st (Lit s # ps) = format_failure st ps"
| "format_failure st (Interp v # ps) =
     (case value_failure st v of Some e \<Rightarrow> Some e | None \<Rightarrow> format_failure st ps)"

text \<open>\<^verbatim>\<open>print(...)\<close>: the line reaches standard output, or the exception is raised.\<close>

definition print_out :: "line \<Rightarrow> state \<Rightarrow> py_exception + state" where
  "print_out l st =
     (case format_failure st l of
        Some e \<Rightarrow> Inl e
      | None \<Rightarrow> Inr (st\<lparr>stdout := stdout st @ [l]\<rparr>))"

text \<open>
  \<^verbatim>\<open>print(..., file=sys.stderr)\<close> of a literal: standard error replaces what it cannot
  encode by an escape, and the literal is ASCII.
\<close>

definition print_err :: "line \<Rightarrow> state \<Rightarrow> state" where
  "print_err l st = st\<lparr>stderr := stderr st @ [Printed l]\<rparr>"

definition ERROR :: nat where
  "ERROR = 40"

text \<open>
  \<^verbatim>\<open>app.logger.error(msg, exc_info=...)\<close> under the configuration of lines 14 to 23:
  the root logger writes records of level \<^verbatim>\<open>ERROR\<close> and above to the file, and the
  stream handler added to \<^verbatim>\<open>app.logger\<close> mirrors them to standard error.
\<close>

definition logger_error :: "string \<Rightarrow> py_exception option \<Rightarrow> state \<Rightarrow> state" where
  "logger_error msg ei st =
     (let r = \<lparr>levelno = ERROR, message = msg, exc = ei\<rparr>
      in if ERROR \<le> levelno r
         then st\<lparr>stderr := stderr st @ [Logged r], log_file := log_file st @ [r]\<rparr>
         else st)"

section \<open>The route handler\<close>

definition local_message :: string where
  "local_message = ''An internal server error occurred. Please try again later.''"

definition success_message :: string where
  "success_message = ''This should not be reached if an error occurs.''"

definition global_message :: string where
  "global_message =
     ''An unexpected internal server error occurred. Please contact support if the issue persists.''"

definition here :: "state \<Rightarrow> nat \<Rightarrow> frame" where
  "here st n = \<lparr>filename = server_py st, lineno = n, funcname = ''trigger_error''\<rparr>"

text \<open>
  Line 36: \<^verbatim>\<open>data.get('simulatedInput', 'null') if data else 'null'\<close>.
\<close>

definition simulated_input_of :: "pyval \<Rightarrow> py_exception + pyval" where
  "simulated_input_of data =
     (if truthy data then py_get data (ustr ''simulatedInput'') (PyStr ''null'')
      else Inr (PyStr ''null''))"

text \<open>
  \<^verbatim>\<open>trigger_error\<close>, lines 33 to 54. The result is the response the view returns, or
  the exception that leaves it, with the line it left from. Only the division of line
  43 is inside the \<^verbatim>\<open>try\<close>; an exception of lines 34 to 38, or of line 51 in the
  \<^verbatim>\<open>except\<close> block, leaves the view.
\<close>

definition trigger_error :: "request \<Rightarrow> state \<Rightarrow> (raised + response) \<times> state" where
  \<open>trigger_error req st =
     (case print_out [Lit ''--- RECEIVED REQUEST TO TRIGGER ERROR ---''] st of
        Inl e \<Rightarrow> (Inl (Error (add_frame (here st 34) e)), st)
      | Inr st1 \<Rightarrow>
     (case get_json True req of
        Inl (HTTPException h) \<Rightarrow> (Inl (HTTPException h), st1)
      | Inl (Error e) \<Rightarrow> (Inl (Error (add_frame (here st 35) e)), st1)
      | Inr data \<Rightarrow>
     (case simulated_input_of data of
        Inl e \<Rightarrow> (Inl (Error (add_frame (here st 36) e)), st1)
      | Inr simulated_input \<Rightarrow>
     (case print_out [Lit ''Input received from client: "'',
                      Interp simulated_input, Lit ''"''] st1 of
        Inl e \<Rightarrow> (Inl (Error (add_frame (here st 37) e)), st1)
      | Inr st2 \<Rightarrow>
     (case print_out
             [Lit ''--- DEMO: Triggering Handled Exception for Secure Error Handling ---'']
             st2 of
        Inl e \<Rightarrow> (Inl (Error (add_frame (here st 38) e)), st2)
      | Inr st3 \<Rightarrow>
     (case py_truediv 1 0 of
        Inr result \<Rightarrow>
          (Inr (with_status (jsonify [(''message'', success_message)]) 200), st3)
      | Inl e0 \<Rightarrow>
          (let e = add_frame (here st 43) e0;
               st4 = logger_error
                 (''An error occurred during processing: '' @ exc_str e) (Some e) st3
           in case print_out
                     [Lit ''--- SECURE: FULL STACK TRACE LOGGED INTERNALLY, NOT EXPOSED TO CLIENT ---'']
                     st4 of
                Inl e' \<Rightarrow> (Inl (Error (add_frame (here st 51) e')), st4)
              | Inr st5 \<Rightarrow>
                  (Inr (with_status (jsonify [(''message'', local_message)]) 500),
                   st5))))))))\<close>

section \<open>The global handler\<close>

text \<open>\<^verbatim>\<open>handle_secure_500\<close>, lines 61 to 76.\<close>

definition handle_secure_500 :: "py_exception \<Rightarrow> state \<Rightarrow> response \<times> state" where
  "handle_secure_500 e st =
     (let st1 = logger_error
            (''An unhandled internal server error occurred: '' @ exc_str e) (exc_info st) st;
          st2 = print_err
            [Lit ''--- SECURE: UNHANDLED 500 ERROR CAUGHT. STACK TRACE LOGGED INTERNALLY, NOT EXPOSED TO CLIENT ---'']
            st1;
          response = jsonify [(''message'', global_message)];
          response = response\<lparr>status := 500\<rparr>;
          response = headers_add ''Access-Control-Allow-Origin'' ''*'' response;
          response = headers_add ''Access-Control-Allow-Headers'' ''Content-Type'' response
      in (response, st2))"

section \<open>Dispatch\<close>

text \<open>
  What the framework hands to a handler registered for status 500 when an exception
  that is not an HTTP exception leaves a view: an \<^verbatim>\<open>InternalServerError\<close>.
\<close>

definition internal_server_error :: py_exception where
  "internal_server_error =
     \<lparr>exc_type = ''InternalServerError'',
      exc_str = ''500 Internal Server Error: The server encountered an internal error and was unable to complete your request. Either the server is overloaded or there is an error in the application.'',
      traceback = []\<rparr>"

text \<open>
  The page the framework answers with for an HTTP exception no handler is registered
  for; only its status matters here.
\<close>

definition http_error_page :: "http_error \<Rightarrow> response" where
  "http_error_page h =
     \<lparr>status = http_status h,
      headers = [(''Content-Type'', ''text/html; charset=utf-8'')],
      body = []\<rparr>"

text \<open>
  Before it looks for a handler, the framework logs the exception that left the view
  (\<^verbatim>\<open>log_exception\<close>): one record of level \<^verbatim>\<open>ERROR\<close> through \<^verbatim>\<open>app.logger\<close>, naming
  the path and the method of the request.
\<close>

definition log_exception :: "py_exception \<Rightarrow> state \<Rightarrow> state" where
  "log_exception e st = logger_error ''Exception on /api/error/trigger [POST]'' (Some e) st"

text \<open>
  A POST to \<^verbatim>\<open>/api/error/trigger\<close>, through the routing of lines 32 and 60, with
  \<^verbatim>\<open>debug=False\<close> (line 83): the view runs; an exception that leaves it is logged by
  the framework and reaches \<^verbatim>\<open>handle_secure_500\<close>, which runs while that exception is
  being handled.
\<close>

definition serve_trigger :: "request \<Rightarrow> state \<Rightarrow> response \<times> state" where
  "serve_trigger req st =
     (case trigger_error req st of
        (Inr resp, st') \<Rightarrow> (resp, st')
      | (Inl (HTTPException h), st') \<Rightarrow> (http_error_page h, st')
      | (Inl (Error e), st') \<Rightarrow>
          (let (resp, st'') =
                 handle_secure_500 internal_server_error
                   ((log_exception e st')\<lparr>exc_info := Some e\<rparr>)
           in (resp, st''\<lparr>exc_info := exc_info st\<rparr>)))"


section \<open>Substrings\<close>

text \<open>Python's \<^verbatim>\<open>sub in s\<close> on strings.\<close>

fun contains :: "string \<Rightarrow> string \<Rightarrow> bool" where
  "contains [] sub = (sub = [])"
| "contains (c # cs) sub = (prefix sub (c # cs) \<or> contains cs sub)"

definition is_digit :: "char \<Rightarrow> bool" where
  "is_digit c = (48 \<le> (of_char c :: nat) \<and> (of_char c :: nat) \<le> 57)"


text \<open>
  What a response body must not show: the names of exception classes, the text of the
  division error, the words a formatted traceback is made of, the name of the view, a
  file name, a digit (a line number), a path separator.
\<close>

definition leak_free :: "string \<Rightarrow> bool" where
  "leak_free b =
     (\<not> contains b ''ZeroDivision'' \<and> \<not> contains b ''Traceback'' \<and>
      \<not> contains b ''Error'' \<and> \<not> contains b ''division by zero'' \<and>
      \<not> contains b ''File '' \<and> \<not> contains b ''line '' \<and>
      \<not> contains b ''trigger_error'' \<and> \<not> contains b ''.py'' \<and>
      \<not> list_ex is_digit b \<and> CHR ''/'' \<notin> set b \<and> CHR 0x5C \<notin> set b)"


section \<open>Evaluating the handlers\<close>

lemma get_json_silent:
  "get_json True req =
     (if json_mimetype req
      then (case payload req of
              Json v \<Rightarrow> Inr v
            | Overdeep msg \<Rightarrow> Inl (Error (recursion_error msg))
            | _ \<Rightarrow> Inr PyNone)
      else Inr PyNone)"
  by (simp add: get_json_def split: payload.splits)

lemma get_json_silent_cases:
  obtains (deep) msg where "get_json True req = Inl (Error (recursion_error msg))"
  | (parsed) data where "get_json True req = Inr data"
  by (cases "json_mimetype req"; cases "payload req") (simp_all add: get_json_silent)

lemma simulated_input_of_cases:
  "simulated_input_of data =
     (if truthy data \<and> \<not> is_dict data then Inl (attribute_error (type_name data) ''get'')
      else Inr (case data of
                  PyDict kvs \<Rightarrow> (case map_of kvs (ustr ''simulatedInput'') of
                                   Some v \<Rightarrow> v
                                 | None \<Rightarrow> PyStr ''null'')
                | _ \<Rightarrow> PyStr ''null''))"
  by (cases data) (auto simp: simulated_input_of_def py_get_def split: option.splits)

lemma simulated_input_of_dict:
  "simulated_input_of (PyDict kvs) =
     Inr (case map_of kvs (ustr ''simulatedInput'') of Some v \<Rightarrow> v | None \<Rightarrow> PyStr ''null'')"
  by (simp add: simulated_input_of_cases)

lemma simulated_input_of_falsy:
  "\<not> truthy data \<Longrightarrow> simulated_input_of data = Inr (PyStr ''null'')"
  by (simp add: simulated_input_of_def)


lemma value_failure_null: "value_failure st (PyStr ''null'') = None"
  by (simp add: value_failure_def)

lemma value_failure_x: "value_failure st (PyStr ''x'') = None"
  by (simp add: value_failure_def)

lemma value_failure_cong:
  "unprintable st' = unprintable st \<Longrightarrow> value_failure st' v = value_failure st v"
  by (cases v) (simp_all add: value_failure_def)

lemma value_failure_stdout: "value_failure (st\<lparr>stdout := out\<rparr>) v = value_failure st v"
  by (rule value_failure_cong) simp

lemma print_out_literal:
  "print_out [Lit s] st = Inr (st\<lparr>stdout := stdout st @ [[Lit s]]\<rparr>)"
  by (simp add: print_out_def)

lemma print_out_value:
  "print_out [Lit a, Interp v, Lit b] st =
     (case value_failure st v of
        Some e \<Rightarrow> Inl e
      | None \<Rightarrow> Inr (st\<lparr>stdout := stdout st @ [[Lit a, Interp v, Lit b]]\<rparr>))"
  by (simp add: print_out_def split: option.splits)

lemma local_body:
  \<open>body (jsonify [(''message'', local_message)]) =
     ''{"message":"An internal server error occurred. Please try again later."}'' @ [CHR 0x0A]\<close>
  by (simp add: jsonify_def json_string_def json_escape_char_def local_message_def)

lemma global_body:
  \<open>body (jsonify [(''message'', global_message)]) =
     ''{"message":"An unexpected internal server error occurred. Please contact support if the issue persists."}'' @ [CHR 0x0A]\<close>
  by (simp add: jsonify_def json_string_def json_escape_char_def global_message_def)

lemma success_body:
  \<open>body (jsonify [(''message'', success_message)]) =
     ''{"message":"This should not be reached if an error occurs."}'' @ [CHR 0x0A]\<close>
  by (simp add: jsonify_def json_string_def json_escape_char_def success_message_def)

lemma trigger_error_overdeep:
  assumes "get_json True req = Inl (Error e)"
  shows "trigger_error req st =
    (Inl (Error (add_frame (here st 35) e)),
     st\<lparr>stdout := stdout st @ [[Lit ''--- RECEIVED REQUEST TO TRIGGER ERROR ---'']]\<rparr>)"
  using assms by (simp add: trigger_error_def print_out_literal)

lemma trigger_error_escapes:
  assumes "get_json True req = Inr data" and "simulated_input_of data = Inl e"
  shows "trigger_error req st =
    (Inl (Error (add_frame (here st 36) e)),
     st\<lparr>stdout := stdout st @ [[Lit ''--- RECEIVED REQUEST TO TRIGGER ERROR ---'']]\<rparr>)"
  using assms by (simp add: trigger_error_def print_out_literal)

lemma trigger_error_unprintable:
  assumes "get_json True req = Inr data" and "simulated_input_of data = Inr v"
    and "value_failure st v = Some e"
  shows "trigger_error req st =
    (Inl (Error (add_frame (here st 37) e)),
     st\<lparr>stdout := stdout st @ [[Lit ''--- RECEIVED REQUEST TO TRIGGER ERROR ---'']]\<rparr>)"
  using assms
  by (simp add: trigger_error_def print_out_literal print_out_value value_failure_stdout)

lemma trigger_error_caught:
  assumes "get_json True req = Inr data" and "simulated_input_of data = Inr v"
    and "value_failure st v = None"
  shows \<open>trigger_error req st =
    (Inr (with_status (jsonify [(''message'', local_message)]) 500),
     st\<lparr>stdout := stdout st @
           [[Lit ''--- RECEIVED REQUEST TO TRIGGER ERROR ---''],
            [Lit ''Input received from client: "'', Interp v, Lit ''"''],
            [Lit ''--- DEMO: Triggering Handled Exception for Secure Error Handling ---''],
            [Lit ''--- SECURE: FULL STACK TRACE LOGGED INTERNALLY, NOT EXPOSED TO CLIENT ---'']],
        stderr := stderr st @
           [Logged \<lparr>levelno = 40,
                    message = ''An error occurred during processing: division by zero'',
                    exc = Some (add_frame (here st 43) zero_division_error)\<rparr>],
        log_file := log_file st @
           [\<lparr>levelno = 40,
             message = ''An error occurred during processing: division by zero'',
             exc = Some (add_frame (here st 43) zero_division_error)\<rparr>]\<rparr>)\<close>
  using assms
  by (simp add: trigger_error_def print_out_literal print_out_value value_failure_stdout
      Let_def py_truediv_def logger_error_def ERROR_def add_frame_def zero_division_error_def)

lemma trigger_error_outcome:
  obtains (raised) n e where
      "trigger_error req st =
         (Inl (Error (add_frame (here st n) e)),
          st\<lparr>stdout := stdout st @ [[Lit ''--- RECEIVED REQUEST TO TRIGGER ERROR ---'']]\<rparr>)"
  | (caught) v where
      \<open>trigger_error req st =
        (Inr (with_status (jsonify [(''message'', local_message)]) 500),
         st\<lparr>stdout := stdout st @
               [[Lit ''--- RECEIVED REQUEST TO TRIGGER ERROR ---''],
                [Lit ''Input received from client: "'', Interp v, Lit ''"''],
                [Lit ''--- DEMO: Triggering Handled Exception for Secure Error Handling ---''],
                [Lit ''--- SECURE: FULL STACK TRACE LOGGED INTERNALLY, NOT EXPOSED TO CLIENT ---'']],
            stderr := stderr st @
               [Logged \<lparr>levelno = 40,
                        message = ''An error occurred during processing: division by zero'',
                        exc = Some (add_frame (here st 43) zero_division_error)\<rparr>],
            log_file := log_file st @
               [\<lparr>levelno = 40,
                 message = ''An error occurred during processing: division by zero'',
                 exc = Some (add_frame (here st 43) zero_division_error)\<rparr>]\<rparr>)\<close>
proof (cases rule: get_json_silent_cases [of req])
  case (deep msg)
  show ?thesis
    by (rule raised) (rule trigger_error_overdeep [OF deep])
next
  case (parsed data)
  show ?thesis
  proof (cases "simulated_input_of data")
    case (Inl e)
    show ?thesis
      by (rule raised) (rule trigger_error_escapes [OF parsed Inl])
  next
    case (Inr v)
    show ?thesis
    proof (cases "value_failure st v")
      case None
      show ?thesis
        by (rule caught) (rule trigger_error_caught [OF parsed Inr None])
    next
      case (Some e)
      show ?thesis
        by (rule raised) (rule trigger_error_unprintable [OF parsed Inr Some])
    qed
  qed
qed

lemma fst_trigger_error:
  "fst (trigger_error req st) =
     (case get_json True req of
        Inl r \<Rightarrow> (case r of HTTPException h \<Rightarrow> Inl (HTTPException h)
                  | Error e \<Rightarrow> Inl (Error (add_frame (here st 35) e)))
      | Inr data \<Rightarrow>
          (case simulated_input_of data of
             Inl e \<Rightarrow> Inl (Error (add_frame (here st 36) e))
           | Inr v \<Rightarrow>
               (case value_failure st v of
                  Some e \<Rightarrow> Inl (Error (add_frame (here st 37) e))
                | None \<Rightarrow> Inr (with_status (jsonify [(''message'', local_message)]) 500))))"
proof (cases rule: get_json_silent_cases [of req])
  case (deep msg)
  show ?thesis
    by (simp add: trigger_error_overdeep [OF deep] deep)
next
  case (parsed data)
  show ?thesis
  proof (cases "simulated_input_of data")
    case (Inl e)
    show ?thesis
      by (simp add: trigger_error_escapes [OF parsed Inl] parsed Inl)
  next
    case (Inr v)
    show ?thesis
    proof (cases "value_failure st v")
      case None
      show ?thesis
        by (simp add: trigger_error_caught [OF parsed Inr None] parsed Inr None)
    next
      case (Some e)
      show ?thesis
        by (simp add: trigger_error_unprintable [OF parsed Inr Some] parsed Inr Some)
    qed
  qed
qed

lemma fst_trigger_error_cong:
  assumes "unprintable st' = unprintable st" and "server_py st' = server_py st"
  shows "fst (trigger_error req st') = fst (trigger_error req st)"
proof -
  have h: "here st' = here st"
    by (rule ext) (simp add: here_def assms(2))
  have v: "value_failure st' = value_failure st"
    by (rule ext) (rule value_failure_cong [OF assms(1)])
  show ?thesis
    unfolding fst_trigger_error h v by (rule refl)
qed

lemma unprintable_trigger_error: "unprintable (snd (trigger_error req st)) = unprintable st"
  by (cases rule: trigger_error_outcome [of req st]) simp_all

lemma server_py_trigger_error: "server_py (snd (trigger_error req st)) = server_py st"
  by (cases rule: trigger_error_outcome [of req st]) simp_all

lemma handle_secure_500_fst:
  "fst (handle_secure_500 e st) =
     \<lparr>status = 500,
      headers = [(''Content-Type'', ''application/json''),
                 (''Access-Control-Allow-Origin'', ''*''),
                 (''Access-Control-Allow-Headers'', ''Content-Type'')],
      body = body (jsonify [(''message'', global_message)])\<rparr>"
  by (simp add: handle_secure_500_def Let_def headers_add_def jsonify_def)

lemma handle_secure_500_snd:
  "snd (handle_secure_500 e st) =
     print_err [Lit ''--- SECURE: UNHANDLED 500 ERROR CAUGHT. STACK TRACE LOGGED INTERNALLY, NOT EXPOSED TO CLIENT ---'']
       (logger_error (''An unhandled internal server error occurred: '' @ exc_str e) (exc_info st) st)"
  by (simp add: handle_secure_500_def Let_def)

lemma global_response_record:
  \<open>fst (handle_secure_500 e st) =
     \<lparr>status = 500,
      headers = [(''Content-Type'', ''application/json''),
                 (''Access-Control-Allow-Origin'', ''*''),
                 (''Access-Control-Allow-Headers'', ''Content-Type'')],
      body = ''{"message":"An unexpected internal server error occurred. Please contact support if the issue persists."}'' @ [CHR 0x0A]\<rparr>\<close>
  by (simp add: handle_secure_500_fst global_body)

lemma local_response_record:
  \<open>with_status (jsonify [(''message'', local_message)]) 500 =
     \<lparr>status = 500, headers = [(''Content-Type'', ''application/json'')],
      body = ''{"message":"An internal server error occurred. Please try again later."}'' @ [CHR 0x0A]\<rparr>\<close>
  using local_body by (simp add: with_status_def jsonify_def)




lemma unprintable_handle_secure_500: "unprintable (snd (handle_secure_500 e st)) = unprintable st"
  by (simp add: handle_secure_500_snd print_err_def logger_error_def Let_def)

lemma serve_trigger_returned:
  assumes "trigger_error req st = (Inr resp, st')"
  shows "serve_trigger req st = (resp, st')"
  using assms by (simp add: serve_trigger_def)

lemma serve_trigger_raised:
  assumes "trigger_error req st = (Inl (Error x), st')"
  shows "serve_trigger req st =
    (fst (handle_secure_500 internal_server_error st),
     (snd (handle_secure_500 internal_server_error
            ((log_exception x st')\<lparr>exc_info := Some x\<rparr>)))
       \<lparr>exc_info := exc_info st\<rparr>)"
  using assms by (simp add: serve_trigger_def case_prod_beta handle_secure_500_fst)


lemma fst_serve_trigger:
  "fst (serve_trigger req st) =
     (case fst (trigger_error req st) of
        Inr resp \<Rightarrow> resp
      | Inl (HTTPException h) \<Rightarrow> http_error_page h
      | Inl (Error x) \<Rightarrow> fst (handle_secure_500 internal_server_error st))"
proof (cases rule: trigger_error_outcome [of req st])
  case (raised n e)
  show ?thesis
    by (simp add: serve_trigger_raised [OF raised] raised)
next
  case (caught v)
  show ?thesis
    by (simp add: serve_trigger_returned [OF caught] caught)
qed

lemma fst_serve_trigger_cong:
  assumes "unprintable st' = unprintable st"
  shows "fst (serve_trigger req st') = fst (serve_trigger req st)"
proof -
  have v: "value_failure st' = value_failure st"
    by (rule ext) (rule value_failure_cong [OF assms])
  show ?thesis
    unfolding fst_serve_trigger fst_trigger_error handle_secure_500_fst v
    by (simp split: sum.splits raised.splits option.splits)
qed

lemma unprintable_serve_trigger: "unprintable (snd (serve_trigger req st)) = unprintable st"
proof (cases rule: trigger_error_outcome [of req st])
  case (raised n e)
  show ?thesis
    by (simp add: serve_trigger_raised [OF raised] unprintable_handle_secure_500
        log_exception_def logger_error_def Let_def)
next
  case (caught v)
  show ?thesis
    by (simp add: serve_trigger_returned [OF caught])
qed

lemma serve_trigger_fst_cases:
  "fst (serve_trigger req st) = with_status (jsonify [(''message'', local_message)]) 500 \<or>
   fst (serve_trigger req st) = fst (handle_secure_500 internal_server_error st)"
proof (cases rule: trigger_error_outcome [of req st])
  case (raised n e)
  show ?thesis
    by (simp add: serve_trigger_raised [OF raised])
next
  case (caught v)
  show ?thesis
    by (simp add: serve_trigger_returned [OF caught])
qed

lemma leak_free_local_body: "leak_free (body (jsonify [(''message'', local_message)]))"
  by (simp add: local_body leak_free_def is_digit_def)

lemma leak_free_global_body: "leak_free (body (jsonify [(''message'', global_message)]))"
  by (simp add: global_body leak_free_def is_digit_def)

lemma body_with_status: "body (with_status r c) = body r"
  by (simp add: with_status_def)




lemma serve_trigger_caught:
  assumes "get_json True req = Inr data" and "simulated_input_of data = Inr v"
    and "value_failure st v = None"
  shows "fst (serve_trigger req st) = with_status (jsonify [(''message'', local_message)]) 500"
  by (simp add: serve_trigger_returned [OF trigger_error_caught [OF assms]])

lemma serve_trigger_null:
  assumes "get_json True req = Inr data" and "\<not> truthy data"
  shows "fst (serve_trigger req st) = with_status (jsonify [(''message'', local_message)]) 500"
  by (rule serve_trigger_caught [OF assms(1) simulated_input_of_falsy [OF assms(2)]
        value_failure_null])

lemma stdout_trigger_error_null:
  assumes "get_json True req = Inr data" and "\<not> truthy data"
  shows \<open>stdout (snd (trigger_error req st)) =
     stdout st @
       [[Lit ''--- RECEIVED REQUEST TO TRIGGER ERROR ---''],
        [Lit ''Input received from client: "'', Interp (PyStr ''null''), Lit ''"''],
        [Lit ''--- DEMO: Triggering Handled Exception for Secure Error Handling ---''],
        [Lit ''--- SECURE: FULL STACK TRACE LOGGED INTERNALLY, NOT EXPOSED TO CLIENT ---'']]\<close>
  by (simp add: trigger_error_caught [OF assms(1) simulated_input_of_falsy [OF assms(2)]
        value_failure_null])

lemma overdeep_trigger_error:
  "trigger_error \<lparr>json_mimetype = True, payload = Overdeep t\<rparr> st =
     (Inl (Error \<lparr>exc_type = ''RecursionError'', exc_str = t,
                  traceback = [\<lparr>filename = server_py st, lineno = 35,
                                funcname = ''trigger_error''\<rparr>]\<rparr>),
      st\<lparr>stdout := stdout st @ [[Lit ''--- RECEIVED REQUEST TO TRIGGER ERROR ---'']]\<rparr>)"
proof -
  have g: "get_json True \<lparr>json_mimetype = True, payload = Overdeep t\<rparr> =
      Inl (Error (recursion_error t))"
    by (simp add: get_json_silent)
  show ?thesis
    by (simp add: trigger_error_overdeep [OF g] add_frame_def recursion_error_def here_def)
qed

lemma list_body_trigger_error:
  "trigger_error \<lparr>json_mimetype = True, payload = Json (PyList [PyInt 1])\<rparr> st =
     (Inl (Error (add_frame (here st 36) (attribute_error ''list'' ''get''))),
      st\<lparr>stdout := stdout st @ [[Lit ''--- RECEIVED REQUEST TO TRIGGER ERROR ---'']]\<rparr>)"
proof -
  have g: "get_json True \<lparr>json_mimetype = True, payload = Json (PyList [PyInt 1])\<rparr> =
      Inr (PyList [PyInt 1])"
    by (simp add: get_json_silent)
  have s: "simulated_input_of (PyList [PyInt 1]) = Inl (attribute_error ''list'' ''get'')"
    by (simp add: simulated_input_of_cases)
  show ?thesis
    by (rule trigger_error_escapes [OF g s])
qed

lemma bodies_differ:
  "body (jsonify [(''message'', global_message)]) \<noteq> body (jsonify [(''message'', local_message)])"
  by (simp add: global_body local_body)

lemma surrogate_input_trigger_error:
  assumes "unprintable st (PyUnicode [0xD800]) = Some e"
  shows "trigger_error
      \<lparr>json_mimetype = True,
       payload = Json (PyDict [(ustr ''simulatedInput'', PyUnicode [0xD800])])\<rparr> st =
     (Inl (Error (add_frame (here st 37) e)),
      st\<lparr>stdout := stdout st @ [[Lit ''--- RECEIVED REQUEST TO TRIGGER ERROR ---'']]\<rparr>)"
proof -
  have g: "get_json True
      \<lparr>json_mimetype = True,
       payload = Json (PyDict [(ustr ''simulatedInput'', PyUnicode [0xD800])])\<rparr> =
      Inr (PyDict [(ustr ''simulatedInput'', PyUnicode [0xD800])])"
    by (simp add: get_json_silent)
  have s: "simulated_input_of (PyDict [(ustr ''simulatedInput'', PyUnicode [0xD800])]) =
      Inr (PyUnicode [0xD800])"
    by (simp add: simulated_input_of_dict)
  have v: "value_failure st (PyUnicode [0xD800]) = Some e"
    using assms by (simp add: value_failure_def)
  show ?thesis
    by (rule trigger_error_unprintable [OF g s v])
qed

lemma surrogate_input_global_message:
  assumes "unprintable st (PyUnicode [0xD800]) = Some e"
  shows "body (fst (serve_trigger
      \<lparr>json_mimetype = True,
       payload = Json (PyDict [(ustr ''simulatedInput'', PyUnicode [0xD800])])\<rparr> st)) =
     body (jsonify [(''message'', global_message)])"
  using serve_trigger_raised [OF surrogate_input_trigger_error [OF assms]]
  by (simp add: handle_secure_500_fst)

section \<open>The claims\<close>

text \<open>
  C1, at a request the claim covers and the handler misses: a POST whose body is the
  JSON document \<^verbatim>\<open>[1]\<close>. The answer has status 500, and its body is the message of
  the global handler, not the message of \<^verbatim>\<open>trigger_error\<close>.
\<close>

theorem trigger_error_list_body_global_message:
  \<open>status (fst (serve_trigger \<lparr>json_mimetype = True, payload = Json (PyList [PyInt 1])\<rparr> st)) = 500 \<and>
   body (fst (serve_trigger \<lparr>json_mimetype = True, payload = Json (PyList [PyInt 1])\<rparr> st)) =
     ''{"message":"An unexpected internal server error occurred. Please contact support if the issue persists."}'' @ [CHR 0x0A] \<and>
   body (fst (serve_trigger \<lparr>json_mimetype = True, payload = Json (PyList [PyInt 1])\<rparr> st)) \<noteq>
     ''{"message":"An internal server error occurred. Please try again later."}'' @ [CHR 0x0A]\<close>
  by (simp add: serve_trigger_raised [OF list_body_trigger_error] handle_secure_500_fst
      global_body)

text \<open>
  C3: whatever exception the global handler is called with, and in whatever state, its
  response has status 500, the body is the JSON object with the one member
  \<^verbatim>\<open>message\<close> holding the global text, and both cross-origin headers are present.
  An exception that leaves \<^verbatim>\<open>trigger_error\<close> uncaught is answered by that handler.
\<close>

theorem handle_secure_500_response:
  \<open>fst (handle_secure_500 e st) =
     \<lparr>status = 500,
      headers = [(''Content-Type'', ''application/json''),
                 (''Access-Control-Allow-Origin'', ''*''),
                 (''Access-Control-Allow-Headers'', ''Content-Type'')],
      body = ''{"message":"An unexpected internal server error occurred. Please contact support if the issue persists."}'' @ [CHR 0x0A]\<rparr> \<and>
   (''Access-Control-Allow-Origin'', ''*'') \<in> set (headers (fst (handle_secure_500 e st))) \<and>
   (''Access-Control-Allow-Headers'', ''Content-Type'') \<in> set (headers (fst (handle_secure_500 e st))) \<and>
   fst (serve_trigger req st) =
     (case fst (trigger_error req st) of
        Inr resp \<Rightarrow> resp
      | Inl (HTTPException h) \<Rightarrow> http_error_page h
      | Inl (Error x) \<Rightarrow>
          fst (handle_secure_500 internal_server_error (snd (trigger_error req st))))\<close>
proof -
  have "fst (serve_trigger req st) =
     (case fst (trigger_error req st) of
        Inr resp \<Rightarrow> resp
      | Inl (HTTPException h) \<Rightarrow> http_error_page h
      | Inl (Error x) \<Rightarrow>
          fst (handle_secure_500 internal_server_error (snd (trigger_error req st))))"
    unfolding fst_serve_trigger handle_secure_500_fst by (rule refl)
  then show ?thesis
    by (simp add: handle_secure_500_fst global_body)
qed

text \<open>
  C4: the division \<^verbatim>\<open>1 / 0\<close> raises, so \<^verbatim>\<open>trigger_error\<close> never returns the response
  of its success branch: for every request the status is 500, never 200, and the body
  is never the text of the success branch.
\<close>

theorem success_branch_unreachable:
  \<open>py_truediv 1 0 = Inl zero_division_error \<and>
   fst (trigger_error req st) \<noteq> Inr (with_status (jsonify [(''message'', success_message)]) 200) \<and>
   status (fst (serve_trigger req st)) = 500 \<and>
   body (fst (serve_trigger req st)) \<noteq>
     ''{"message":"This should not be reached if an error occurs."}'' @ [CHR 0x0A]\<close>
proof (cases rule: trigger_error_outcome [of req st])
  case (raised n e)
  show ?thesis
    by (simp add: raised serve_trigger_raised [OF raised] handle_secure_500_fst global_body
        py_truediv_def)
next
  case (caught v)
  show ?thesis
    by (simp add: caught serve_trigger_returned [OF caught] with_status_def local_body
        py_truediv_def) (simp add: jsonify_def)
qed

text \<open>
  C2: on both error paths the body is one of the two fixed texts and nothing else. It
  holds no class name of an exception, not the word \<^verbatim>\<open>Traceback\<close>, no text of the
  division error, no file name, no digit, no path separator. The body of the global
  handler is the same for every exception and every state, and the answer to a request
  does not change with the path of \<^verbatim>\<open>server.py\<close> that the tracebacks carry.
\<close>

theorem response_bodies_reveal_nothing:
  \<open>leak_free (body (fst (serve_trigger req st))) \<and>
   leak_free (body (fst (handle_secure_500 e st))) \<and>
   (body (fst (serve_trigger req st)) =
      ''{"message":"An internal server error occurred. Please try again later."}'' @ [CHR 0x0A] \<or>
    body (fst (serve_trigger req st)) =
      ''{"message":"An unexpected internal server error occurred. Please contact support if the issue persists."}'' @ [CHR 0x0A]) \<and>
   body (fst (handle_secure_500 e st)) = body (fst (handle_secure_500 e' st')) \<and>
   fst (serve_trigger req st) = fst (serve_trigger req (st\<lparr>server_py := p\<rparr>))\<close>
proof -
  have h: "\<And>x s. body (fst (handle_secure_500 x s)) = body (jsonify [(''message'', global_message)])"
    by (simp add: handle_secure_500_fst)
  have a: "leak_free (body (fst (serve_trigger req st)))"
    using serve_trigger_fst_cases [of req st]
    by (auto simp: h body_with_status leak_free_local_body leak_free_global_body)
  have b: "leak_free (body (fst (handle_secure_500 e st)))"
    by (simp add: h leak_free_global_body)
  have c: \<open>body (fst (serve_trigger req st)) =
      ''{"message":"An internal server error occurred. Please try again later."}'' @ [CHR 0x0A] \<or>
    body (fst (serve_trigger req st)) =
      ''{"message":"An unexpected internal server error occurred. Please contact support if the issue persists."}'' @ [CHR 0x0A]\<close>
    using serve_trigger_fst_cases [of req st]
    by (auto simp: h body_with_status local_body global_body)
  have d: "body (fst (handle_secure_500 e st)) = body (fst (handle_secure_500 e' st'))"
    by (simp add: h)
  have f: "fst (serve_trigger req st) = fst (serve_trigger req (st\<lparr>server_py := p\<rparr>))"
    by (rule sym, rule fst_serve_trigger_cong) simp
  from a b c d f show ?thesis by blast
qed

text \<open>
  C5: a request without a body, one with the empty object and one with
  \<^verbatim>\<open>{"simulatedInput": "x"}\<close> get the same response, status and headers and body,
  whatever the content type and the state. The response does depend on the body: a
  request whose body is the JSON document \<^verbatim>\<open>[1]\<close> gets another one.
\<close>

theorem response_depends_on_body:
  \<open>fst (serve_trigger \<lparr>json_mimetype = m1, payload = Absent\<rparr> st1) =
     \<lparr>status = 500, headers = [(''Content-Type'', ''application/json'')],
      body = ''{"message":"An internal server error occurred. Please try again later."}'' @ [CHR 0x0A]\<rparr> \<and>
   fst (serve_trigger \<lparr>json_mimetype = m2, payload = Json (PyDict [])\<rparr> st2) =
     fst (serve_trigger \<lparr>json_mimetype = m1, payload = Absent\<rparr> st1) \<and>
   fst (serve_trigger \<lparr>json_mimetype = m3,
          payload = Json (PyDict [(ustr ''simulatedInput'', PyStr ''x'')])\<rparr> st3) =
     fst (serve_trigger \<lparr>json_mimetype = m1, payload = Absent\<rparr> st1) \<and>
   fst (serve_trigger \<lparr>json_mimetype = True, payload = Json (PyList [PyInt 1])\<rparr> st4) \<noteq>
     fst (serve_trigger \<lparr>json_mimetype = m1, payload = Absent\<rparr> st1)\<close>
proof -
  have g0: "get_json True \<lparr>json_mimetype = m1, payload = Absent\<rparr> = Inr PyNone"
    by (simp add: get_json_silent)
  have absent: "fst (serve_trigger \<lparr>json_mimetype = m1, payload = Absent\<rparr> st1) =
      with_status (jsonify [(''message'', local_message)]) 500"
    by (rule serve_trigger_null [OF g0]) simp
  have g1: "get_json True \<lparr>json_mimetype = m2, payload = Json (PyDict [])\<rparr> =
      Inr (if m2 then PyDict [] else PyNone)"
    by (simp add: get_json_silent)
  have empty: "fst (serve_trigger \<lparr>json_mimetype = m2, payload = Json (PyDict [])\<rparr> st2) =
      with_status (jsonify [(''message'', local_message)]) 500"
    by (rule serve_trigger_null [OF g1]) simp
  have x: "fst (serve_trigger \<lparr>json_mimetype = m3,
          payload = Json (PyDict [(ustr ''simulatedInput'', PyStr ''x'')])\<rparr> st3) =
      with_status (jsonify [(''message'', local_message)]) 500"
  proof (cases m3)
    case True
    have g: "get_json True \<lparr>json_mimetype = m3,
          payload = Json (PyDict [(ustr ''simulatedInput'', PyStr ''x'')])\<rparr> =
        Inr (PyDict [(ustr ''simulatedInput'', PyStr ''x'')])"
      using True by (simp add: get_json_silent)
    have s: "simulated_input_of (PyDict [(ustr ''simulatedInput'', PyStr ''x'')]) =
        Inr (PyStr ''x'')"
      by (simp add: simulated_input_of_dict)
    show ?thesis
      by (rule serve_trigger_caught [OF g s value_failure_x])
  next
    case False
    have g: "get_json True \<lparr>json_mimetype = m3,
          payload = Json (PyDict [(ustr ''simulatedInput'', PyStr ''x'')])\<rparr> = Inr PyNone"
      using False by (simp add: get_json_silent)
    show ?thesis
      by (rule serve_trigger_null [OF g]) simp
  qed
  have l: "fst (serve_trigger \<lparr>json_mimetype = True, payload = Json (PyList [PyInt 1])\<rparr> st4) \<noteq>
      with_status (jsonify [(''message'', local_message)]) 500"
    by (simp add: serve_trigger_raised [OF list_body_trigger_error] handle_secure_500_fst
        with_status_def jsonify_def)
  show ?thesis
    using l unfolding absent empty x by (simp add: local_response_record)
qed





text \<open>
  C8: a body that \<^verbatim>\<open>json.loads\<close> rejects with a syntax error makes
  \<^verbatim>\<open>get_json(silent=True)\<close> return \<^verbatim>\<open>None\<close>, where the call that is not silent raises
  the error of status 400, and the request gets the response of a request without
  body. A body that is not valid JSON because it only opens brackets, a hundred
  thousand of them, does not: \<^verbatim>\<open>RecursionError\<close> leaves \<^verbatim>\<open>get_json\<close> and the view on
  line 35, and the response, of status 500, is the one of the global handler.
\<close>

theorem overdeep_body_leaves_get_json:
  \<open>get_json True \<lparr>json_mimetype = m, payload = Malformed s\<rparr> = Inr PyNone \<and>
   get_json False \<lparr>json_mimetype = True, payload = Malformed s\<rparr> = Inl (HTTPException BadRequest) \<and>
   http_status BadRequest = 400 \<and>
   fst (serve_trigger \<lparr>json_mimetype = m, payload = Malformed s\<rparr> st) =
     fst (serve_trigger \<lparr>json_mimetype = m', payload = Absent\<rparr> st') \<and>
   get_json True \<lparr>json_mimetype = True, payload = Overdeep t\<rparr> =
     Inl (Error \<lparr>exc_type = ''RecursionError'', exc_str = t, traceback = []\<rparr>) \<and>
   fst (trigger_error \<lparr>json_mimetype = True, payload = Overdeep t\<rparr> st) =
     Inl (Error \<lparr>exc_type = ''RecursionError'', exc_str = t,
                 traceback = [\<lparr>filename = server_py st, lineno = 35,
                               funcname = ''trigger_error''\<rparr>]\<rparr>) \<and>
   status (fst (serve_trigger \<lparr>json_mimetype = True, payload = Overdeep t\<rparr> st)) = 500 \<and>
   body (fst (serve_trigger \<lparr>json_mimetype = True, payload = Overdeep t\<rparr> st)) =
     ''{"message":"An unexpected internal server error occurred. Please contact support if the issue persists."}'' @ [CHR 0x0A] \<and>
   fst (serve_trigger \<lparr>json_mimetype = True, payload = Overdeep t\<rparr> st) \<noteq>
     fst (serve_trigger \<lparr>json_mimetype = m', payload = Absent\<rparr> st')\<close>
proof -
  have g: "get_json True \<lparr>json_mimetype = m, payload = Malformed s\<rparr> = Inr PyNone"
    by (simp add: get_json_silent)
  have g': "get_json True \<lparr>json_mimetype = m', payload = Absent\<rparr> = Inr PyNone"
    by (simp add: get_json_silent)
  have b: "get_json False \<lparr>json_mimetype = True, payload = Malformed s\<rparr> =
      Inl (HTTPException BadRequest)"
    by (simp add: get_json_def)
  have d: "get_json True \<lparr>json_mimetype = True, payload = Overdeep t\<rparr> =
     Inl (Error \<lparr>exc_type = ''RecursionError'', exc_str = t, traceback = []\<rparr>)"
    by (simp add: get_json_silent recursion_error_def)
  have malformed: "fst (serve_trigger \<lparr>json_mimetype = m, payload = Malformed s\<rparr> st) =
      with_status (jsonify [(''message'', local_message)]) 500"
    by (rule serve_trigger_null [OF g]) simp
  have absent: "fst (serve_trigger \<lparr>json_mimetype = m', payload = Absent\<rparr> st') =
      with_status (jsonify [(''message'', local_message)]) 500"
    by (rule serve_trigger_null [OF g']) simp
  have deep: \<open>fst (serve_trigger \<lparr>json_mimetype = True, payload = Overdeep t\<rparr> st) =
     \<lparr>status = 500,
      headers = [(''Content-Type'', ''application/json''),
                 (''Access-Control-Allow-Origin'', ''*''),
                 (''Access-Control-Allow-Headers'', ''Content-Type'')],
      body = ''{"message":"An unexpected internal server error occurred. Please contact support if the issue persists."}'' @ [CHR 0x0A]\<rparr>\<close>
    by (simp add: serve_trigger_raised [OF overdeep_trigger_error] global_response_record)
  show ?thesis
    unfolding malformed absent deep local_response_record
    by (simp add: g b d overdeep_trigger_error)
qed

text \<open>
  C9: the response to a request depends on the request and on what the standard output
  of the process can print, on nothing else in the state: a second execution, in the
  state the first one left or with anything else printed and logged before, returns
  the same result. The view attempts the division once: it appends one record to the
  log when it answers, none when an exception leaves it.
\<close>

theorem trigger_error_deterministic:
  "fst (trigger_error req (snd (trigger_error req st))) = fst (trigger_error req st) \<and>
   fst (serve_trigger req (snd (serve_trigger req st))) = fst (serve_trigger req st) \<and>
   fst (serve_trigger req
          (st\<lparr>stdout := out, stderr := err, log_file := lg, exc_info := ei, server_py := p\<rparr>)) =
     fst (serve_trigger req st) \<and>
   length (log_file (snd (trigger_error req st))) =
     (case fst (trigger_error req st) of
        Inr resp \<Rightarrow> Suc (length (log_file st))
      | Inl x \<Rightarrow> length (log_file st))"
proof -
  have a: "fst (trigger_error req (snd (trigger_error req st))) = fst (trigger_error req st)"
    by (rule fst_trigger_error_cong) (rule unprintable_trigger_error, rule server_py_trigger_error)
  have b: "fst (serve_trigger req (snd (serve_trigger req st))) = fst (serve_trigger req st)"
    by (rule fst_serve_trigger_cong) (rule unprintable_serve_trigger)
  have c: "fst (serve_trigger req
          (st\<lparr>stdout := out, stderr := err, log_file := lg, exc_info := ei, server_py := p\<rparr>)) =
     fst (serve_trigger req st)"
    by (rule fst_serve_trigger_cong) simp
  have d: "length (log_file (snd (trigger_error req st))) =
     (case fst (trigger_error req st) of
        Inr resp \<Rightarrow> Suc (length (log_file st))
      | Inl x \<Rightarrow> length (log_file st))"
    by (cases rule: trigger_error_outcome [of req st]) simp_all
  from a b c d show ?thesis by blast
qed

text \<open>
  C10: for a body that is absent, that \<^verbatim>\<open>json.loads\<close> rejects with a syntax error, or
  that is an object without the member \<^verbatim>\<open>simulatedInput\<close> (here \<^verbatim>\<open>{"other": 7}\<close>),
  the value read is the string \<^verbatim>\<open>null\<close>; it is printed in the second line and the
  response is the one of the view. For a body that cannot be parsed because it is
  nested too deep, no value is read: the exception of line 35 leaves the view after
  the first printed line, and the response is another one.
\<close>

theorem overdeep_body_reads_no_default:
  \<open>simulated_input_of PyNone = Inr (PyStr ''null'') \<and>
   simulated_input_of (PyDict [(ustr ''other'', PyInt 7)]) = Inr (PyStr ''null'') \<and>
   get_json True \<lparr>json_mimetype = m, payload = Absent\<rparr> = Inr PyNone \<and>
   get_json True \<lparr>json_mimetype = m, payload = Malformed s\<rparr> = Inr PyNone \<and>
   stdout (snd (trigger_error \<lparr>json_mimetype = m, payload = Absent\<rparr> st)) =
     stdout st @
       [[Lit ''--- RECEIVED REQUEST TO TRIGGER ERROR ---''],
        [Lit ''Input received from client: "'', Interp (PyStr ''null''), Lit ''"''],
        [Lit ''--- DEMO: Triggering Handled Exception for Secure Error Handling ---''],
        [Lit ''--- SECURE: FULL STACK TRACE LOGGED INTERNALLY, NOT EXPOSED TO CLIENT ---'']] \<and>
   body (fst (serve_trigger \<lparr>json_mimetype = m, payload = Absent\<rparr> st)) =
     ''{"message":"An internal server error occurred. Please try again later."}'' @ [CHR 0x0A] \<and>
   trigger_error \<lparr>json_mimetype = True, payload = Overdeep t\<rparr> st =
     (Inl (Error \<lparr>exc_type = ''RecursionError'', exc_str = t,
                  traceback = [\<lparr>filename = server_py st, lineno = 35,
                                funcname = ''trigger_error''\<rparr>]\<rparr>),
      st\<lparr>stdout := stdout st @ [[Lit ''--- RECEIVED REQUEST TO TRIGGER ERROR ---'']]\<rparr>) \<and>
   body (fst (serve_trigger \<lparr>json_mimetype = True, payload = Overdeep t\<rparr> st)) \<noteq>
     body (fst (serve_trigger \<lparr>json_mimetype = m, payload = Absent\<rparr> st))\<close>
proof -
  have n: "simulated_input_of PyNone = Inr (PyStr ''null'')"
    by (simp add: simulated_input_of_falsy)
  have o: "simulated_input_of (PyDict [(ustr ''other'', PyInt 7)]) = Inr (PyStr ''null'')"
    by (simp add: simulated_input_of_dict)
  have g: "get_json True \<lparr>json_mimetype = m, payload = Absent\<rparr> = Inr PyNone"
    by (simp add: get_json_silent)
  have g': "get_json True \<lparr>json_mimetype = m, payload = Malformed s\<rparr> = Inr PyNone"
    by (simp add: get_json_silent)
  have out: \<open>stdout (snd (trigger_error \<lparr>json_mimetype = m, payload = Absent\<rparr> st)) =
     stdout st @
       [[Lit ''--- RECEIVED REQUEST TO TRIGGER ERROR ---''],
        [Lit ''Input received from client: "'', Interp (PyStr ''null''), Lit ''"''],
        [Lit ''--- DEMO: Triggering Handled Exception for Secure Error Handling ---''],
        [Lit ''--- SECURE: FULL STACK TRACE LOGGED INTERNALLY, NOT EXPOSED TO CLIENT ---'']]\<close>
    by (rule stdout_trigger_error_null [OF g]) simp
  have absent: "fst (serve_trigger \<lparr>json_mimetype = m, payload = Absent\<rparr> st) =
      with_status (jsonify [(''message'', local_message)]) 500"
    by (rule serve_trigger_null [OF g]) simp
  have deep: "body (fst (serve_trigger \<lparr>json_mimetype = True, payload = Overdeep t\<rparr> st)) =
      body (jsonify [(''message'', global_message)])"
    by (simp add: serve_trigger_raised [OF overdeep_trigger_error] handle_secure_500_fst)
  have ab: \<open>body (fst (serve_trigger \<lparr>json_mimetype = m, payload = Absent\<rparr> st)) =
     ''{"message":"An internal server error occurred. Please try again later."}'' @ [CHR 0x0A]\<close>
    by (simp add: absent body_with_status local_body)
  have ne: "body (fst (serve_trigger \<lparr>json_mimetype = True, payload = Overdeep t\<rparr> st)) \<noteq>
     body (fst (serve_trigger \<lparr>json_mimetype = m, payload = Absent\<rparr> st))"
    unfolding deep ab by (simp add: global_body)
  from n o g g' out ab overdeep_trigger_error [of t st] ne show ?thesis
    by blast
qed

end
